theory Spec2Isabelle
  imports Complex_Main "HOL-Library.Word"
begin

section \<open>The reader of the OPUS container (class ftsreader)\<close>

subsection \<open>Bytes, exceptions and the state of a reader object\<close>

type_synonym byte = "8 word"

text \<open>The Python exceptions that the modelled code can raise.\<close>

datatype exn =
    OSError | StructError | TypeError | ValueError | KeyError | IndexError
  | UnicodeDecodeError | ZeroDivisionError | UnboundLocalError | AttributeError
  | OverflowError

text \<open>
  The three ways \<open>getfileobject\<close> builds a file object. Any other \<open>filemode\<close> string
  ends in the \<open>exit(...)\<close> branch and is outside this model.
\<close>

datatype filemode = Hdd | BytesFromFile | Mem

text \<open>A decoded header value: \<open>struct.unpack\<close> of \<open>i\<close>, of \<open>d\<close> (kept as its 64 raw
  bits), or the text of type codes 2 to 4 (ISO-8859-1: one character per byte).\<close>

datatype hval = HInt int | HFloat "64 word" | HText string

text \<open>
  The x axis of a data block is \<open>np.linspace\<close> of floating-point values. It is kept as
  the call's arguments: \<open>OpdAxis res n\<close> is \<open>np.linspace(0, 2*0.9/float(res), n)\<close> for a
  number \<open>res\<close> that is not zero, and \<open>RangeAxis fxv lxv n\<close> is
  \<open>np.linspace(fxv, lxv, n)\<close> for two numbers. The values of the axis are not computed;
  what the conversion, the division and \<open>np.linspace\<close> raise is (see \<open>opd_stop\<close> and
  \<open>range_axis\<close>).
\<close>

datatype xaxis = OpdAxis hval nat | RangeAxis hval hval nat

text \<open>One entry of \<open>self.fs\<close>.\<close>

record block_info =
  blocktype :: string
  blocktype2 :: string
  blength :: int
  boffset :: int

text \<open>\<open>self.log\<close> holds messages and caught exception objects; \<open>Problem e\<close> is the
  message \<open>'Problem with ' + str(e)\<close>.\<close>

datatype log_entry = Msg string | Exc exn | Problem exn

text \<open>
  A Python \<open>dict\<close> is an association list in insertion order with distinct keys;
  \<open>dict_set\<close> is \<open>d[k] = v\<close>, \<open>dict_get\<close> is \<open>d.get(k)\<close>.
\<close>

type_synonym ('k, 'v) dict = "('k \<times> 'v) list"

fun dict_set :: "('k, 'v) dict \<Rightarrow> 'k \<Rightarrow> 'v \<Rightarrow> ('k, 'v) dict" where
  "dict_set [] k v = [(k, v)]"
| "dict_set ((k', v') # d) k v =
     (if k' = k then (k, v) # d else (k', v') # dict_set d k v)"

definition dict_get :: "('k, 'v) dict \<Rightarrow> 'k \<Rightarrow> 'v option" where
  "dict_get d k = map_of d k"

definition keys :: "('k, 'v) dict \<Rightarrow> 'k list" where
  "keys d = map fst d"

text \<open>
  The attributes of an \<open>ftsreader\<close> object. An attribute that has not been assigned yet
  is \<open>None\<close>. A decoded parameter tag (a Python \<open>str\<close>) is kept as its UTF-8 bytes, block
  names and texts as their characters.

  Three fields are not attributes but the surroundings of the object, which it never
  changes: \<open>disk\<close> is the file system (path to content); \<open>seek_max\<close> is the largest
  position that \<open>seek\<close> accepts on a file of that file system (\<open>2^44 - 4096\<close> on ext4
  with blocks of 4 KiB), and the files of \<open>disk\<close> are taken to end at least 131078 bytes
  (one parameter record) before it; \<open>pyfloat\<close> is Python's \<open>float()\<close> on a text, the bits
  of the double or \<open>None\<close> where it raises \<open>ValueError\<close>.
\<close>

record reader =
  disk :: "string \<Rightarrow> byte list option"
  seek_max :: int
  pyfloat :: "string \<Rightarrow> 64 word option"
  log :: "log_entry list"
  status :: bool
  verbose :: bool
  path :: string
  filemode :: filemode
  streamdata :: "byte list option"
  isftsfile :: "bool option"
  fs :: "(string, block_info) dict option"
  header :: "(string, (string, hval) dict) dict option"
  ifg :: "(xaxis \<times> 32 word list) option"

definition log_append :: "reader \<Rightarrow> log_entry \<Rightarrow> reader" where
  "log_append r e = r\<lparr>log := log r @ [e]\<rparr>"

subsection \<open>File objects\<close>

text \<open>
  \<open>getfileobject\<close>: the whole file, its first 17428 bytes, or the stream data.
  \<open>open\<close> of a path that does not exist raises; \<open>io.BytesIO(None)\<close> is empty.
\<close>

definition getfileobject :: "reader \<Rightarrow> exn + byte list" where
  "getfileobject r =
     (case filemode r of
        Hdd \<Rightarrow> (case disk r (path r) of None \<Rightarrow> Inl OSError | Some d \<Rightarrow> Inr d)
      | BytesFromFile \<Rightarrow>
          (case disk r (path r) of None \<Rightarrow> Inl OSError | Some d \<Rightarrow> Inr (take 17428 d))
      | Mem \<Rightarrow> (case streamdata r of None \<Rightarrow> Inr [] | Some d \<Rightarrow> Inr d))"

text \<open>
  \<open>f.seek(p)\<close>. A negative position raises (\<open>OSError\<close> on a disk file, \<open>ValueError\<close> on
  a \<open>BytesIO\<close>); a position from \<open>2^63\<close> on does not fit the C offset and raises
  \<open>OverflowError\<close>; a disk file refuses a position beyond \<open>seek_max\<close> with \<open>OSError\<close> (a negative
  \<open>seek_max\<close> counts as 0: the start of a file is always a position).
  Any other position is accepted, also past the end of the data.
\<close>

definition fseek :: "reader \<Rightarrow> int \<Rightarrow> exn + nat" where
  "fseek r p =
     (if p < 0 then Inl (case filemode r of Hdd \<Rightarrow> OSError | _ \<Rightarrow> ValueError)
      else if p \<ge> 9223372036854775808 then Inl OverflowError
      else if filemode r = Hdd \<and> p > max 0 (seek_max r) then Inl OSError
      else Inr (nat p))"

text \<open>
  The lengths that \<open>f.read(n)\<close> refuses: one that does not fit the C size raises
  \<open>OverflowError\<close>, and a disk file takes no negative length but \<open>-1\<close> (\<open>ValueError\<close>).
\<close>

definition read_refused :: "filemode \<Rightarrow> int \<Rightarrow> exn option" where
  "read_refused m n =
     (if n \<ge> 9223372036854775808 \<or> n < - 9223372036854775808 then Some OverflowError
      else if m = Hdd \<and> n < 0 \<and> n \<noteq> - 1 then Some ValueError
      else None)"

text \<open>\<open>f.read(n)\<close> at position \<open>pos\<close> for a length that is not refused: the bytes that
  are there, at most \<open>n\<close> of them; a negative \<open>n\<close> reads to the end. The loops of the
  reader call it with the lengths 8, 12, 24 and twice a 16-bit word count.\<close>

definition fread :: "byte list \<Rightarrow> nat \<Rightarrow> int \<Rightarrow> byte list" where
  "fread buf pos n = (if n < 0 then drop pos buf else take (nat n) (drop pos buf))"

text \<open>The pattern \<open>fi = self.getfileobject(); with fi as f: f.seek(p); f.read(n)\<close>.\<close>

definition read_at :: "reader \<Rightarrow> int \<Rightarrow> int \<Rightarrow> exn + byte list" where
  "read_at r p n =
     (case getfileobject r of
        Inl e \<Rightarrow> Inl e
      | Inr buf \<Rightarrow> (case fseek r p of
                     Inl e \<Rightarrow> Inl e
                   | Inr pos \<Rightarrow> (case read_refused (filemode r) n of
                                  Some e \<Rightarrow> Inl e
                                | None \<Rightarrow> Inr (fread buf pos n))))"

subsection \<open>Text of integers\<close>

definition digit :: "nat \<Rightarrow> char" where
  "digit d = char_of (48 + d)"

fun str_nat :: "nat \<Rightarrow> string" where
  "str_nat n = (if n < 10 then [digit n] else str_nat (n div 10) @ [digit (n mod 10)])"

declare str_nat.simps [simp del]

text \<open>\<open>str(i)\<close> of a Python integer.\<close>

definition str_int :: "int \<Rightarrow> string" where
  "str_int i = (if i < 0 then CHR ''-'' # str_nat (nat (- i)) else str_nat (nat i))"

subsection \<open>Data blocks\<close>

text \<open>
  \<open>struct.unpack('%1if' % length, data)\<close>: a negative count is a bad format, and the data
  must hold exactly \<open>4 * length\<close> bytes. The floats are kept as their 32 raw bits
  (little-endian).
\<close>

fun chunks4 :: "byte list \<Rightarrow> 32 word list" where
  "chunks4 (a # b # c # d # rest) = word_rcat [d, c, b, a] # chunks4 rest"
| "chunks4 _ = []"

definition unpack_floats :: "int \<Rightarrow> byte list \<Rightarrow> exn + 32 word list" where
  "unpack_floats n data =
     (if n < 0 \<or> int (length data) \<noteq> 4 * n then Inl StructError else Inr (chunks4 data))"

definition get_block :: "reader \<Rightarrow> int \<Rightarrow> int \<Rightarrow> reader \<times> (exn + 32 word list)" where
  "get_block r pointer len =
     (let r1 = log_append r (Msg (''Getting data block at '' @ str_int pointer
                                   @ '' with length '' @ str_int len))
      in (r1, case read_at r1 pointer (len * 4) of
                Inl e \<Rightarrow> Inl e
              | Inr data \<Rightarrow> unpack_floats len data))"

subsection \<open>Header parameters: searching\<close>

text \<open>What \<open>search_header_par\<close> returns: a block name, a list of block names, or
  \<open>None\<close>.\<close>

datatype search_result = SName string | SList "string list" | SNone

text \<open>The two nested loops collect the block name once for every key of the block that
  equals \<open>par\<close>. The prints under \<open>verbose\<close> are not modelled.\<close>

definition matching_blocks :: "(string, (string, hval) dict) dict \<Rightarrow> string \<Rightarrow> string list" where
  "matching_blocks h par =
     concat (map (\<lambda>(i, ps). concat (map (\<lambda>j. if par = j then [i] else []) (keys ps))) h)"

definition search_header_par :: "reader \<Rightarrow> string \<Rightarrow> exn + search_result" where
  "search_header_par r par =
     (case header r of
        None \<Rightarrow> Inl AttributeError
      | Some h \<Rightarrow>
          (let pars = matching_blocks h par
           in if length pars = 1 then Inr (SName (pars ! 0))
              else if length pars > 1 then Inr (SList pars)
              else Inr SNone))"

text \<open>\<open>self.header[k][par]\<close> for the \<open>k\<close> that the search returned: a list cannot be a
  key at all, \<open>None\<close> and an absent name are missing keys.\<close>

definition header_index :: "(string, (string, hval) dict) dict \<Rightarrow> search_result \<Rightarrow> string
    \<Rightarrow> exn + hval" where
  "header_index h k par =
     (case k of
        SList _ \<Rightarrow> Inl TypeError
      | SNone \<Rightarrow> Inl KeyError
      | SName b \<Rightarrow>
          (case dict_get h b of
             None \<Rightarrow> Inl KeyError
           | Some ps \<Rightarrow> (case dict_get ps par of None \<Rightarrow> Inl KeyError | Some v \<Rightarrow> Inr v)))"

text \<open>\<open>get_header_par\<close>: any exception of the lookup is caught and gives \<open>None\<close>.\<close>

definition get_header_par :: "reader \<Rightarrow> string \<Rightarrow> hval option" where
  "get_header_par r par =
     (case header r of
        None \<Rightarrow> None
      | Some h \<Rightarrow>
          (case search_header_par r par of
             Inl e \<Rightarrow> None
           | Inr k \<Rightarrow> (case header_index h k par of Inl e \<Rightarrow> None | Inr v \<Rightarrow> Some v)))"

subsection \<open>Integers in the byte stream\<close>

text \<open>\<open>struct\<close> in native mode on a little-endian machine: \<open>i\<close> is a signed 32-bit
  integer, \<open>H\<close> an unsigned 16-bit one, \<open>d\<close> a double (kept as raw bits).\<close>

definition le_nat :: "byte list \<Rightarrow> nat" where
  "le_nat bs = foldr (\<lambda>b acc. unat b + 256 * acc) bs 0"

definition i32 :: "byte list \<Rightarrow> int" where
  "i32 bs = (let n = int (le_nat bs) in if n < 2 ^ 31 then n else n - 2 ^ 32)"

definition u16 :: "byte list \<Rightarrow> nat" where
  "u16 bs = le_nat bs"

definition f64 :: "byte list \<Rightarrow> 64 word" where
  "f64 bs = word_of_nat (le_nat bs)"

definition chr_of_byte :: "byte \<Rightarrow> char" where
  "chr_of_byte b = char_of (unat b)"

definition byte_of_chr :: "char \<Rightarrow> byte" where
  "byte_of_chr c = of_char c"

subsection \<open>The block directory (read_structure)\<close>

definition blocknames :: "(string, string) dict" where
  "blocknames =
     [(''160'', ''Sample Parameters''), (''23'', ''Data Parameters''),
      (''96'', ''Optic Parameters''), (''64'', ''FT Parameters''),
      (''48'', ''Acquisition Parameters''), (''32'', ''Instrument Parameters''),
      (''7'', ''Data Block''), (''0'', ''something'')]"

text \<open>The two last keys of \<open>__blocknames2\<close> are \<open>bytes\<close> objects, which never equal the
  \<open>str\<close> that is looked up; the five \<open>str\<close> keys remain.\<close>

definition blocknames2 :: "(string, string) dict" where
  "blocknames2 =
     [(''132'', '' ScSm''), (''4'', '' SpSm''), (''8'', '' IgSm''), (''20'', '' TrSm''),
      (''12'', '' PhSm'')]"

text \<open>\<open>'%3i' % n\<close>: the decimal text, padded with blanks on the left to three
  characters.\<close>

definition fmt3i :: "int \<Rightarrow> string" where
  "fmt3i n = replicate (3 - length (str_int n)) CHR '' '' @ str_int n"

text \<open>The name under which a directory entry is stored, and the name in the log line
  (before the length is appended).\<close>

definition logged_name :: "string \<Rightarrow> string \<Rightarrow> string" where
  "logged_name bt bt2 =
     (case dict_get blocknames bt of
        Some n \<Rightarrow> n
      | None \<Rightarrow> ''[unknown block '' @ bt @ '']'')
     @ (case dict_get blocknames2 bt2 of Some suffix \<Rightarrow> suffix | None \<Rightarrow> [])"

definition hdrblockname :: "string \<Rightarrow> string \<Rightarrow> int \<Rightarrow> string" where
  "hdrblockname bt bt2 len =
     logged_name bt bt2
     @ (if bt = ''0'' \<or> dict_get blocknames bt = None then '' len '' @ fmt3i len else [])"

text \<open>
  The loop over \<open>range(numberofblocks)\<close>: \<open>k\<close> entries of 12 bytes (\<open>2BH2i\<close>) are read one
  after the other from position \<open>pos\<close>. A short read makes \<open>struct.unpack\<close> raise, with
  the entries stored so far left in \<open>self.fs\<close>.
\<close>

fun scan_blocks :: "byte list \<Rightarrow> nat \<Rightarrow> nat \<Rightarrow> (string, block_info) dict \<Rightarrow> log_entry list
    \<Rightarrow> ((string, block_info) dict \<times> log_entry list) \<times> (exn + unit)" where
  "scan_blocks buf pos 0 d lg = ((d, lg), Inr ())"
| "scan_blocks buf pos (Suc k) d lg =
     (let s = fread buf pos 12
      in if length s \<noteq> 12 then ((d, lg), Inl StructError)
         else
           (let bt = str_nat (unat (s ! 0));
                bt2 = str_nat (unat (s ! 1));
                len = i32 (take 4 (drop 4 s));
                offset2 = i32 (take 4 (drop 8 s));
                lg' = lg @ [Msg (''Found block '' @ bt @ '', '' @ bt2
                                 @ '' and identified as '' @ logged_name bt bt2)];
                d' = dict_set d (hdrblockname bt bt2 len)
                       \<lparr>blocktype = bt, blocktype2 = bt2, blength = len, boffset = offset2\<rparr>
            in scan_blocks buf (pos + 12) k d' lg'))"

definition read_structure :: "reader \<Rightarrow> reader \<times> (exn + unit)" where
  "read_structure r =
     (let r1 = r\<lparr>fs := Some []\<rparr>
      in case getfileobject r1 of
           Inl e \<Rightarrow> (r1, Inl e)
         | Inr buf \<Rightarrow>
             (let r2 = log_append r1 (Msg ''Reading structure of file'');
                  hd6 = fread buf 0 24
              in if length hd6 \<noteq> 24 then (r2, Inl StructError)
                 else
                   (let offset1 = i32 (take 4 (drop 12 hd6));
                        numberofblocks = i32 (take 4 (drop 20 hd6))
                    in case fseek r2 offset1 of
                         Inl e \<Rightarrow> (r2, Inl e)
                       | Inr pos \<Rightarrow>
                           (case scan_blocks buf pos (nat numberofblocks) [] (log r2) of
                              ((d, lg), res) \<Rightarrow> (r2\<lparr>fs := Some d, log := lg\<rparr>, res)))))"

subsection \<open>Parameter blocks (getparamsfromblock)\<close>

text \<open>\<open>bytes.decode()\<close> is strict UTF-8: no overlong forms, no surrogates, nothing above
  U+10FFFF. The bytes are given by their values.\<close>

definition cont :: "nat \<Rightarrow> bool" where
  "cont c = (128 \<le> c \<and> c \<le> 191)"

definition second3 :: "nat \<Rightarrow> nat \<Rightarrow> bool" where
  "second3 b c = (if b = 224 then 160 \<le> c \<and> c \<le> 191
                  else if b = 237 then 128 \<le> c \<and> c \<le> 159 else cont c)"

definition second4 :: "nat \<Rightarrow> nat \<Rightarrow> bool" where
  "second4 b c = (if b = 240 then 144 \<le> c \<and> c \<le> 191
                  else if b = 244 then 128 \<le> c \<and> c \<le> 143 else cont c)"

fun utf8_ok :: "nat list \<Rightarrow> bool" where
  "utf8_ok [] = True"
| "utf8_ok (b # bs) =
     (if b < 128 then utf8_ok bs
      else if 194 \<le> b \<and> b \<le> 223 then
        (case bs of c1 # rest \<Rightarrow> cont c1 \<and> utf8_ok rest | _ \<Rightarrow> False)
      else if 224 \<le> b \<and> b \<le> 239 then
        (case bs of c1 # c2 # rest \<Rightarrow> second3 b c1 \<and> cont c2 \<and> utf8_ok rest | _ \<Rightarrow> False)
      else if 240 \<le> b \<and> b \<le> 244 then
        (case bs of c1 # c2 # c3 # rest \<Rightarrow>
                      second4 b c1 \<and> cont c2 \<and> cont c3 \<and> utf8_ok rest
                  | _ \<Rightarrow> False)
      else False)"

definition decode_tag :: "byte list \<Rightarrow> exn + string" where
  "decode_tag para =
     (if utf8_ok (map unat para) then Inr (map chr_of_byte para) else Inl UnicodeDecodeError)"

text \<open>
  The value of one record, from its type code, its word count and the payload that was
  read (which is shorter than \<open>2 * len\<close> bytes at the end of the source). For the codes 0
  and 1 the format is built from the length of the payload, so \<open>struct.unpack\<close> accepts
  every multiple of 4 (of 8) bytes and \<open>[0]\<close> fails on none; for the codes 2 to 4 it is
  built from the word count.
\<close>

definition decode_value :: "nat \<Rightarrow> nat \<Rightarrow> byte list \<Rightarrow> exn + hval" where
  "decode_value thistype len data =
     (if thistype = 0 then
        (if length data mod 4 \<noteq> 0 then Inl StructError
         else if length data div 4 = 0 then Inl IndexError
         else Inr (HInt (i32 (take 4 data))))
      else if thistype = 1 then
        (if length data mod 8 \<noteq> 0 then Inl StructError
         else if length data div 8 = 0 then Inl IndexError
         else Inr (HFloat (f64 (take 8 data))))
      else if thistype \<ge> 2 \<and> thistype \<le> 4 then
        (if length data \<noteq> 2 * len then Inl StructError
         else Inr (HText (takeWhile (\<lambda>c. c \<noteq> CHR 0x00) (map chr_of_byte data))))
      else Inr (HText ''[read error]''))"

text \<open>The body of the \<open>try\<close>: the value, then \<open>params[para.decode()] = val\<close>.\<close>

definition store_param :: "byte list \<Rightarrow> nat \<Rightarrow> nat \<Rightarrow> byte list \<Rightarrow> (string, hval) dict
    \<Rightarrow> exn + (string, hval) dict" where
  "store_param para thistype len data params =
     (case decode_value thistype len data of
        Inl e \<Rightarrow> Inl e
      | Inr val \<Rightarrow>
          (case decode_tag para of
             Inl e \<Rightarrow> Inl e
           | Inr tag \<Rightarrow> Inr (dict_set params tag val)))"

text \<open>The 8-byte record header \<open>4s2H\<close>: the tag without a final null byte, the type code
  and the word count.\<close>

definition parse_record :: "byte list \<Rightarrow> byte list \<times> nat \<times> nat" where
  "parse_record s =
     (let para = take 4 s;
          thistype = u16 (take 2 (drop 4 s));
          len = u16 (take 2 (drop 6 s))
      in (if para ! 3 = 0 then take 3 para else para, thistype, len))"

text \<open>
  The \<open>while\<close> loop, at position \<open>pos = offset + i\<close> of the file object. The 8-byte record
  header is unpacked outside the \<open>try\<close>: a short read there ends the loop with an
  exception. An exception inside the \<open>try\<close> is appended to the log and the loop goes on.
  The loop stops at a tag that starts with \<open>END\<close> or at a word count of 0.
\<close>

function params_loop :: "byte list \<Rightarrow> nat \<Rightarrow> (string, hval) dict \<Rightarrow> log_entry list
    \<Rightarrow> log_entry list \<times> (exn + (string, hval) dict)" where
  "params_loop buf pos params lg =
     (if length (fread buf pos 8) \<noteq> 8 then (lg, Inl StructError)
      else
        (case parse_record (fread buf pos 8) of
           (para, thistype, len) \<Rightarrow>
             if take 3 para \<noteq> map byte_of_chr ''END'' \<and> len > 0 then
               (case store_param para thistype len (fread buf (pos + 8) (2 * int len)) params of
                  Inl e \<Rightarrow> params_loop buf (pos + 8 + 2 * len) params (lg @ [Exc e])
                | Inr params' \<Rightarrow> params_loop buf (pos + 8 + 2 * len) params' lg)
             else (lg, Inr params)))"
  by pat_completeness auto
termination
proof (relation "measure (\<lambda>(buf, pos, params, lg). length buf - pos)", goal_cases)
  case 1
  show ?case by simp
next
  case 2
  then show ?case by (auto simp: fread_def)
next
  case 3
  then show ?case by (auto simp: fread_def)
qed

declare params_loop.simps [simp del]

text \<open>\<open>getparamsfromblock(offset, length, full=False)\<close>. The parameter \<open>length\<close> is
  overwritten by the first record and bounds nothing. Returns the object (its log) and
  the dictionary, or the exception that left the loop.\<close>

definition getparamsfromblock :: "reader \<Rightarrow> int \<Rightarrow> int
    \<Rightarrow> reader \<times> (exn + (string, hval) dict)" where
  "getparamsfromblock r offset len0 =
     (case getfileobject r of
        Inl e \<Rightarrow> (r, Inl e)
      | Inr buf \<Rightarrow>
          (case fseek r offset of
             Inl e \<Rightarrow> (r, Inl e)
           | Inr pos \<Rightarrow>
               (case params_loop buf pos [] (log r) of
                  (lg, res) \<Rightarrow> (r\<lparr>log := lg\<rparr>, res))))"

subsection \<open>The header (read_header)\<close>

text \<open>\<open>sub in s\<close> on Python strings.\<close>

fun contains_str :: "string \<Rightarrow> string \<Rightarrow> bool" where
  "contains_str sub [] = (sub = [])"
| "contains_str sub (c # cs) = (take (length sub) (c # cs) = sub \<or> contains_str sub cs)"

text \<open>The test that lets a directory entry be decoded: the two nested \<open>if\<close>s.\<close>

definition header_bearing :: "string \<Rightarrow> block_info \<Rightarrow> bool" where
  "header_bearing block info =
     ((take 10 block \<noteq> ''Data Block'' \<and> blength info > 0)
      \<and> \<not> (contains_str ''unknown'' block \<or> contains_str ''something'' block))"

text \<open>The body of the \<open>for\<close> loop for one entry of \<open>self.fs\<close>. An exception of
  \<open>getparamsfromblock\<close> is caught and logged; nothing is stored for that block.\<close>

definition read_header_block :: "reader \<Rightarrow> string \<times> block_info \<Rightarrow> reader" where
  "read_header_block r entry =
     (case entry of (block, info) \<Rightarrow>
        if take 10 block \<noteq> ''Data Block'' \<and> blength info > 0 then
          (if contains_str ''unknown'' block \<or> contains_str ''something'' block then r
           else
             (let r1 = log_append r (Msg (''Reading Header Block: '' @ block))
              in case getparamsfromblock r1 (boffset info) (blength info) of
                   (r2, Inl e) \<Rightarrow> log_append r2 (Exc e)
                 | (r2, Inr params) \<Rightarrow>
                     (case header r2 of
                        None \<Rightarrow> log_append r2 (Exc AttributeError)
                      | Some h \<Rightarrow> r2\<lparr>header := Some (dict_set h block params)\<rparr>)))
        else r)"

definition read_header :: "reader \<Rightarrow> reader \<times> (exn + unit)" where
  "read_header r =
     (case read_structure (log_append r (Msg ''Reading Header ...'')) of
        (r1, Inl e) \<Rightarrow> (r1, Inl e)
      | (r1, Inr u) \<Rightarrow>
          (let r2 = r1\<lparr>header := Some []\<rparr>
           in case fs r2 of
                None \<Rightarrow> (r2, Inl AttributeError)
              | Some d \<Rightarrow> (foldl read_header_block r2 d, Inr ())))"

subsection \<open>Looking up and extracting data blocks\<close>

text \<open>\<open>search_block\<close> returns the entry, or logs and returns \<open>None\<close> (no \<open>return\<close> in
  the \<open>else\<close> branch).\<close>

definition search_block :: "reader \<Rightarrow> string \<Rightarrow> reader \<times> (exn + block_info option)" where
  "search_block r blockname =
     (case fs r of
        None \<Rightarrow> (r, Inl AttributeError)
      | Some d \<Rightarrow>
          if blockname \<in> set (keys d) then (r, Inr (dict_get d blockname))
          else (log_append r (Msg (''Could not find '' @ blockname @ '' in self.fs.keys()'')),
                Inr None))"

definition has_block :: "reader \<Rightarrow> string \<Rightarrow> exn + bool" where
  "has_block r blockname =
     (case fs r of None \<Rightarrow> Inl AttributeError | Some d \<Rightarrow> Inr (blockname \<in> set (keys d)))"

text \<open>\<open>self.header[block][par]\<close>.\<close>

definition header_par :: "reader \<Rightarrow> string \<Rightarrow> string \<Rightarrow> exn + hval" where
  "header_par r block par =
     (case header r of
        None \<Rightarrow> Inl AttributeError
      | Some h \<Rightarrow> header_index h (SName block) par)"

text \<open>\<open>search_block(block)[field]\<close>: subscripting \<open>None\<close> is a \<open>TypeError\<close>.\<close>

definition search_field :: "reader \<Rightarrow> string \<Rightarrow> (block_info \<Rightarrow> int) \<Rightarrow> reader \<times> (exn + int)" where
  "search_field r block field =
     (case search_block r block of
        (r1, Inl e) \<Rightarrow> (r1, Inl e)
      | (r1, Inr None) \<Rightarrow> (r1, Inl TypeError)
      | (r1, Inr (Some info)) \<Rightarrow> (r1, Inr (field info)))"

text \<open>The x axis for a block name: the chain of \<open>if\<close>s after the y axis has been read.
  A name that none of them matches leaves \<open>xax\<close> unbound at the \<open>return\<close>.\<close>

definition float_is_zero :: "64 word \<Rightarrow> bool" where
  "float_is_zero w = (w = 0 \<or> w = 0x8000000000000000)"

definition is_text :: "hval \<Rightarrow> bool" where
  "is_text v = (case v of HText t \<Rightarrow> True | _ \<Rightarrow> False)"

text \<open>\<open>2*0.9/float(res)\<close>: \<open>float\<close> of a text can raise, and Python raises on the
  division by zero. What is returned is the number that \<open>float\<close> gave.\<close>

definition opd_stop :: "reader \<Rightarrow> hval \<Rightarrow> exn + hval" where
  "opd_stop r res =
     (case res of
        HInt i \<Rightarrow> if i = 0 then Inl ZeroDivisionError else Inr (HInt i)
      | HFloat w \<Rightarrow> if float_is_zero w then Inl ZeroDivisionError else Inr (HFloat w)
      | HText t \<Rightarrow>
          (case pyfloat r t of
             None \<Rightarrow> Inl ValueError
           | Some w \<Rightarrow> if float_is_zero w then Inl ZeroDivisionError else Inr (HFloat w)))"

text \<open>\<open>np.linspace(fxv, lxv, n)\<close> multiplies its end points by \<open>1.0\<close> first, which numpy
  refuses for a text with a \<open>TypeError\<close>.\<close>

definition range_axis :: "reader \<Rightarrow> string \<Rightarrow> string \<Rightarrow> nat \<Rightarrow> reader \<times> (exn + xaxis)" where
  "range_axis r msg hblock n =
     (let r1 = log_append r (Msg msg)
      in case header_par r1 hblock ''FXV'' of
           Inl e \<Rightarrow> (r1, Inl e)
         | Inr fxv \<Rightarrow>
             (case header_par r1 hblock ''LXV'' of
                Inl e \<Rightarrow> (r1, Inl e)
              | Inr lxv \<Rightarrow>
                  if is_text fxv \<or> is_text lxv then (r1, Inl TypeError)
                  else (r1, Inr (RangeAxis fxv lxv n))))"

definition get_xaxis :: "reader \<Rightarrow> string \<Rightarrow> nat \<Rightarrow> reader \<times> (exn + xaxis)" where
  "get_xaxis r block n =
     (if block = ''Data Block IgSm'' \<or> block = ''Data Block'' then
        (let r1 = log_append r (Msg ''Getting ifg data block'')
         in case header_par r1 ''Acquisition Parameters'' ''RES'' of
              Inl e \<Rightarrow> (r1, Inl e)
            | Inr res \<Rightarrow>
                (case opd_stop r1 res of
                   Inl e \<Rightarrow> (r1, Inl e)
                 | Inr x \<Rightarrow> (r1, Inr (OpdAxis x n))))
      else if block = ''Data Block SpSm'' then
        range_axis r ''Getting spc data block'' ''Data Parameters SpSm'' n
      else if block = ''Data Block ScSm'' then
        range_axis r ''Getting spc data block'' ''Data Parameters ScSm'' n
      else if block = ''Data Block TrSm'' then
        range_axis r ''Getting trm data block'' ''Data Parameters TrSm'' n
      else if block = ''Data Block PhSm'' then
        range_axis r ''Getting pha data block'' ''Data Parameters PhSm'' n
      else (r, Inl UnboundLocalError))"

definition get_datablocks :: "reader \<Rightarrow> string \<Rightarrow> reader \<times> (exn + xaxis \<times> 32 word list)" where
  "get_datablocks r block =
     (let r0 = log_append r (Msg ''Getting data blocks'')
      in case search_field r0 block boffset of
           (r1, Inl e) \<Rightarrow> (r1, Inl e)
         | (r1, Inr off) \<Rightarrow>
             (case search_field r1 block blength of
                (r2, Inl e) \<Rightarrow> (r2, Inl e)
              | (r2, Inr len) \<Rightarrow>
                  (case get_block r2 off len of
                     (r3, Inl e) \<Rightarrow> (r3, Inl e)
                   | (r3, Inr yax) \<Rightarrow>
                       (case get_xaxis r3 block (length yax) of
                          (r4, Inl e) \<Rightarrow> (r4, Inl e)
                        | (r4, Inr xax) \<Rightarrow> (r4, Inr (xax, yax))))))"

subsection \<open>The magic number and the constructor\<close>

definition ftsmagicval :: "byte list" where
  "ftsmagicval = [0x0A, 0x0A, 0xFE, 0xFE]"

text \<open>\<open>test_if_ftsfile\<close>: every exception is caught, logged and counted as a failed
  test.\<close>

definition test_if_ftsfile :: "reader \<Rightarrow> reader" where
  "test_if_ftsfile r =
     (let r1 = log_append r (Msg ''testing if FTS file'')
      in case read_at r1 0 4 of
           Inl e \<Rightarrow> (log_append r1 (Exc e))\<lparr>status := False, isftsfile := Some False\<rparr>
         | Inr magic \<Rightarrow>
             if magic = ftsmagicval then
               (if verbose r1
                then log_append r1 (Msg (''Identified '' @ path r1 @ '' as FTS file ...''))
                else r1)\<lparr>status := True, isftsfile := Some True\<rparr>
             else
               (log_append r1 (Msg (''Bad Magic found in '' @ path r1)))
                 \<lparr>status := False, isftsfile := Some False\<rparr>)"

text \<open>The body of the \<open>try\<close> in \<open>__init__\<close> after the magic test.\<close>

definition init_body :: "reader \<Rightarrow> bool \<Rightarrow> bool \<Rightarrow> reader \<times> (exn + unit)" where
  "init_body r getifg getslices =
     (if status r then
        (case (if \<not> getslices then read_header r else (r, Inr ())) of
           (r1, Inl e) \<Rightarrow> (r1, Inl e)
         | (r1, Inr u) \<Rightarrow>
             (let skip = (log_append r1
                            (Msg ''No Interferogram requested or not found ... skipping.''),
                          Inr ())
              in if getifg then
                   (case has_block r1 ''Data Block IgSm'' of
                      Inl e \<Rightarrow> (r1, Inl e)
                    | Inr False \<Rightarrow> skip
                    | Inr True \<Rightarrow>
                        (case get_datablocks r1 ''Data Block IgSm'' of
                           (r2, Inl e) \<Rightarrow> (r2, Inl e)
                         | (r2, Inr xy) \<Rightarrow> (r2\<lparr>ifg := Some xy\<rparr>, Inr ())))
                 else skip))
      else (r, Inl ValueError))"

text \<open>
  \<open>ftsreader(path, verbose, getifg=..., getslices=..., filemode=..., streamdata=...)\<close>
  in the surroundings \<open>w = (disk, seek_max, pyfloat)\<close>. The attributes \<open>folder\<close> and
  \<open>filename\<close>, which nothing reads, and the prints are left out. \<open>new_reader\<close> is the
  object before the \<open>try\<close>.
\<close>

type_synonym world = "(string \<Rightarrow> byte list option) \<times> int \<times> (string \<Rightarrow> 64 word option)"

definition new_reader :: "world \<Rightarrow> string \<Rightarrow> bool \<Rightarrow> filemode \<Rightarrow> byte list option \<Rightarrow> reader" where
  "new_reader w pth verb fm sd =
     \<lparr>disk = fst w, seek_max = fst (snd w), pyfloat = snd (snd w),
      log = [Msg ''Initializing''], status = True, verbose = verb,
      path = pth, filemode = fm, streamdata = sd, isftsfile = None, fs = None,
      header = None, ifg = None\<rparr>"

definition init :: "world \<Rightarrow> string \<Rightarrow> bool \<Rightarrow> bool \<Rightarrow> bool \<Rightarrow> filemode
    \<Rightarrow> byte list option \<Rightarrow> reader" where
  "init w pth verb getifg getslices fm sd =
     (let r0 = new_reader w pth verb fm sd;
          r1 = (if \<not> getslices then test_if_ftsfile r0 else r0)
      in case init_body r1 getifg getslices of
           (r2, Inl e) \<Rightarrow> log_append r2 (Problem e)
         | (r2, Inr u) \<Rightarrow>
             if verbose r2 \<and> \<not> status r2 then log_append r2 (Msg ''An error occured.'')
             else r2)"

subsection \<open>Example objects\<close>

text \<open>Surroundings with an empty disk on ext4 and a \<open>float()\<close> that takes no text, and
  a reader over stream data \<open>d\<close>, as \<open>ftsreader(path, filemode='mem', streamdata=d)\<close>
  starts out.\<close>

definition empty_world :: world where
  "empty_world = ((\<lambda>_. None), 17592186040320, (\<lambda>_. None))"

definition mem_reader :: "byte list \<Rightarrow> reader" where
  "mem_reader d = \<lparr>disk = (\<lambda>_. None), seek_max = 17592186040320, pyfloat = (\<lambda>_. None),
     log = [], status = True, verbose = False,
     path = ''x'', filemode = Mem, streamdata = Some d, isftsfile = None, fs = None,
     header = None, ifg = None\<rparr>"

text \<open>The blocks of a header in which a parameter tag occurs, in the order of the
  header: the multiplicity that \<open>search_header_par\<close> is specified by.\<close>

definition blocks_with_tag :: "(string, (string, hval) dict) dict \<Rightarrow> string \<Rightarrow> string list" where
  "blocks_with_tag h par = map fst (filter (\<lambda>e. par \<in> set (keys (snd e))) h)"

definition example_header :: "(string, (string, hval) dict) dict" where
  "example_header =
     [(''Instrument Parameters'', [(''PKL'', HInt 5), (''RES'', HInt 1)]),
      (''Acquisition Parameters'', [(''RES'', HInt 2)])]"

text \<open>A parameter block with one record of type code 9 (tag \<open>XYZ\<close>, one word of
  payload) and the \<open>END\<close> record.\<close>

definition rec9 :: "byte list" where
  "rec9 = [88, 89, 90, 0, 9, 0, 1, 0, 97, 98, 69, 78, 68, 0, 0, 0, 0, 0]"



section \<open>Properties of the reader\<close>

subsection \<open>Reads past the end of the source\<close>

lemma read_at_ok:
  "getfileobject r = Inr buf \<Longrightarrow> 0 \<le> p \<Longrightarrow> p < 2 ^ 63 \<Longrightarrow>
   (filemode r = Hdd \<longrightarrow> p \<le> max 0 (seek_max r)) \<Longrightarrow> 0 \<le> n \<Longrightarrow> n < 2 ^ 63 \<Longrightarrow>
     read_at r p n = Inr (take (nat n) (drop (nat p) buf))"
  by (auto simp: read_at_def fseek_def fread_def read_refused_def)

lemma getfileobject_log [simp]: "getfileobject (log_append r e) = getfileobject r"
  by (simp add: getfileobject_def log_append_def split: filemode.split)

lemma filemode_log [simp]: "filemode (log_append r e) = filemode r"
  by (simp add: log_append_def)

lemma fseek_log [simp]: "fseek (log_append r e) p = fseek r p"
  by (simp add: fseek_def log_append_def)

lemma read_at_log [simp]: "read_at (log_append r e) p n = read_at r p n"
  by (simp add: read_at_def split: sum.split)




subsection \<open>Searching the header\<close>

lemma inner_loop_distinct:
  "distinct (keys ps) \<Longrightarrow>
     concat (map (\<lambda>j. if par = j then [i] else []) (keys ps))
       = (if par \<in> set (keys ps) then [i] else [])"
  by (induction ps) (auto simp: keys_def)

lemma matching_blocks_eq:
  "\<forall>e \<in> set h. distinct (keys (snd e)) \<Longrightarrow> matching_blocks h par = blocks_with_tag h par"
  by (induction h) (auto simp: matching_blocks_def blocks_with_tag_def inner_loop_distinct)

text \<open>
  Claim C9. On a header (a dictionary of dictionaries, so the tags of a block are
  distinct), \<open>search_header_par\<close> returns the name of the block when the tag occurs in
  exactly one block, the list of all blocks that hold it when it occurs in more than one,
  and \<open>None\<close> when it occurs in none; in the last case \<open>get_header_par\<close> returns
  \<open>None\<close> and raises nothing.
\<close>

theorem search_header_par_shapes:
  assumes "header r = Some h" and "\<forall>e \<in> set h. distinct (keys (snd e))"
  shows "(blocks_with_tag h par = [b] \<longrightarrow> search_header_par r par = Inr (SName b))
       \<and> (length (blocks_with_tag h par) > 1 \<longrightarrow>
            search_header_par r par = Inr (SList (blocks_with_tag h par)))
       \<and> (blocks_with_tag h par = [] \<longrightarrow>
            search_header_par r par = Inr SNone \<and> get_header_par r par = None)"
  using assms
  by (simp add: search_header_par_def get_header_par_def header_index_def
      matching_blocks_eq Let_def)

theorem search_header_par_shapes_witness:
  "search_header_par (mem_reader []\<lparr>header := Some example_header\<rparr>) ''PKL''
      = Inr (SName ''Instrument Parameters'')
   \<and> search_header_par (mem_reader []\<lparr>header := Some example_header\<rparr>) ''RES''
      = Inr (SList [''Instrument Parameters'', ''Acquisition Parameters''])
   \<and> search_header_par (mem_reader []\<lparr>header := Some example_header\<rparr>) ''LWN'' = Inr SNone
   \<and> get_header_par (mem_reader []\<lparr>header := Some example_header\<rparr>) ''LWN'' = None"
proof -
  let ?r = "mem_reader []\<lparr>header := Some example_header\<rparr>"
  have h: "header ?r = Some example_header" by simp
  have d: "\<forall>e \<in> set example_header. distinct (keys (snd e))"
    by (simp add: example_header_def keys_def)
  have b1: "blocks_with_tag example_header ''PKL'' = [''Instrument Parameters'']"
    by (simp add: blocks_with_tag_def example_header_def keys_def)
  have b2: "blocks_with_tag example_header ''RES''
              = [''Instrument Parameters'', ''Acquisition Parameters'']"
    by (simp add: blocks_with_tag_def example_header_def keys_def)
  have b3: "blocks_with_tag example_header ''LWN'' = []"
    by (simp add: blocks_with_tag_def example_header_def keys_def)
  show ?thesis
    using search_header_par_shapes [OF h d, of "''PKL''" "''Instrument Parameters''"]
      search_header_par_shapes [OF h d, of "''RES''"]
      search_header_par_shapes [OF h d, of "''LWN''"] b1 b2 b3
    by simp
qed

subsection \<open>Records with an unknown type code\<close>

text \<open>
  Claim C6 as the code has it. A record that is read in full, is not the end marker, has
  a type code other than 0 to 4 and a tag that decodes: the text \<open>[read error]\<close> is stored
  under its tag, the log is left as it is, and the loop goes on with the record behind
  the payload.
\<close>

theorem unknown_type_code_stored:
  assumes "length (fread buf pos 8) = 8"
    and "parse_record (fread buf pos 8) = (para, ty, len)"
    and "take 3 para \<noteq> map byte_of_chr ''END''" and "len > 0"
    and "ty \<notin> {0, 1, 2, 3, 4}"
    and "decode_tag para = Inr t"
  shows "store_param para ty len (fread buf (pos + 8) (2 * int len)) params
           = Inr (dict_set params t (HText ''[read error]''))
       \<and> params_loop buf pos params lg
           = params_loop buf (pos + 8 + 2 * len)
               (dict_set params t (HText ''[read error]'')) lg"
proof -
  from assms(5) have ty: "ty \<noteq> 0" "ty \<noteq> 1" "\<not> (ty \<ge> 2 \<and> ty \<le> 4)" by auto
  have st: "store_param para ty len (fread buf (pos + 8) (2 * int len)) params
              = Inr (dict_set params t (HText ''[read error]''))"
    using ty assms(6) by (simp add: store_param_def decode_value_def)
  have "params_loop buf pos params lg
           = params_loop buf (pos + 8 + 2 * len)
               (dict_set params t (HText ''[read error]'')) lg"
    using assms(1-4) st by (subst params_loop.simps) simp
  with st show ?thesis by simp
qed

theorem unknown_type_code_stored_witness:
  "params_loop rec9 0 [] [] = params_loop rec9 10 [(''XYZ'', HText ''[read error]'')] []"
proof -
  have f: "fread rec9 0 8 = [88, 89, 90, 0, 9, 0, 1, 0]"
    by (simp add: fread_def rec9_def)
  have a: "length (fread rec9 0 8) = 8" by (simp add: f)
  have b: "parse_record (fread rec9 0 8) = ([88, 89, 90], 9, 1)"
    by (simp add: f parse_record_def u16_def le_nat_def)
  have c: "take 3 [88, 89, 90 :: byte] \<noteq> map byte_of_chr ''END''"
    by (simp add: byte_of_chr_def)
  have d: "(9::nat) \<notin> {0, 1, 2, 3, 4}" by simp
  have e: "decode_tag [88, 89, 90] = Inr ''XYZ''" by code_simp
  show ?thesis
    using unknown_type_code_stored [OF a b c _ d e, of "[]" "[]"] by simp
qed

text \<open>Claim C6 as stated fails: decoding the block \<open>rec9\<close> stores a value under the tag
  of the record with type code 9 and logs nothing.\<close>

theorem read_error_value_counterexample:
  "snd (getparamsfromblock (mem_reader rec9) 0 18) = Inr [(''XYZ'', HText ''[read error]'')]
   \<and> log (fst (getparamsfromblock (mem_reader rec9) 0 18)) = []"
  by code_simp

subsection \<open>A block name that the directory does not hold\<close>




subsection \<open>A source without the magic number\<close>

text \<open>
  Claim C4 as the code has it. When the constructor scans a source (\<open>getslices\<close> is off)
  whose first four bytes are not the magic number, the object ends with \<open>status\<close> and
  \<open>isftsfile\<close> false. No block directory is built, not even an empty one: \<open>self.fs\<close>
  and \<open>self.header\<close> are never assigned, so that \<open>has_block\<close> raises
  \<open>AttributeError\<close> for every name. The log shows that neither \<open>read_header\<close> nor
  \<open>read_structure\<close> ran.
\<close>

theorem bad_magic_rejected:
  assumes "getfileobject (new_reader w pth verb fm sd) = Inr buf"
    and "take 4 buf \<noteq> ftsmagicval"
  shows "status (init w pth verb getifg False fm sd) = False
       \<and> isftsfile (init w pth verb getifg False fm sd) = Some False
       \<and> fs (init w pth verb getifg False fm sd) = None
       \<and> has_block (init w pth verb getifg False fm sd) b = Inl AttributeError
       \<and> header (init w pth verb getifg False fm sd) = None
       \<and> ifg (init w pth verb getifg False fm sd) = None
       \<and> log (init w pth verb getifg False fm sd)
           = [Msg ''Initializing'', Msg ''testing if FTS file'',
              Msg (''Bad Magic found in '' @ pth), Problem ValueError]"
proof -
  let ?r0 = "new_reader w pth verb fm sd"
  have ra: "read_at ?r0 0 4 = Inr (take 4 buf)"
    using assms(1) by (simp add: read_at_ok)
  have p: "path (log_append ?r0 e) = pth" for e
    by (simp add: log_append_def new_reader_def)
  have t: "test_if_ftsfile ?r0
             = (log_append (log_append ?r0 (Msg ''testing if FTS file''))
                  (Msg (''Bad Magic found in '' @ pth)))\<lparr>status := False, isftsfile := Some False\<rparr>"
    using assms(2) by (simp add: test_if_ftsfile_def Let_def ra p)
  have f: "fs (init w pth verb getifg False fm sd) = None"
    unfolding init_def Let_def t
    by (simp add: init_body_def log_append_def new_reader_def)
  have rest: "status (init w pth verb getifg False fm sd) = False
       \<and> isftsfile (init w pth verb getifg False fm sd) = Some False
       \<and> header (init w pth verb getifg False fm sd) = None
       \<and> ifg (init w pth verb getifg False fm sd) = None
       \<and> log (init w pth verb getifg False fm sd)
           = [Msg ''Initializing'', Msg ''testing if FTS file'',
              Msg (''Bad Magic found in '' @ pth), Problem ValueError]"
    unfolding init_def Let_def t
    by (simp add: init_body_def log_append_def new_reader_def)
  from f have "has_block (init w pth verb getifg False fm sd) b = Inl AttributeError"
    by (simp add: has_block_def)
  with f rest show ?thesis by simp
qed

theorem bad_magic_rejected_witness:
  "status (init empty_world ''x'' False True False Mem (Some [1, 2, 3, 4, 5])) = False
   \<and> fs (init empty_world ''x'' False True False Mem (Some [1, 2, 3, 4, 5])) = None"
proof -
  have a: "getfileobject (new_reader empty_world ''x'' False Mem (Some [1, 2, 3, 4, 5]))
             = Inr [1, 2, 3, 4, 5]"
    by (simp add: getfileobject_def new_reader_def)
  have b: "take 4 [1, 2, 3, 4, 5 :: byte] \<noteq> ftsmagicval" by (simp add: ftsmagicval_def)
  show ?thesis using bad_magic_rejected [OF a b, of True] by simp
qed

text \<open>Claim C4 as stated fails: after a bad magic number the object has no directory,
  where the claim has an empty one; asking it for a block raises.\<close>

theorem bad_magic_no_directory_counterexample:
  "fs (init empty_world ''x'' False True False Mem (Some [1, 2, 3, 4, 5])) \<noteq> Some []
   \<and> has_block (init empty_world ''x'' False True False Mem (Some [1, 2, 3, 4, 5]))
       ''Data Block IgSm'' = Inl AttributeError"
  by code_simp

end
